theory Spec2Isabelle
  imports Main "HOL-Library.AList"
begin

section \<open>Python string primitives used by the handlers\<close>

text \<open>
  Strings are lists of characters. \<open>str.replace(old, new)\<close> scans from the left and
  replaces non-overlapping occurrences of \<open>old\<close>; with an empty \<open>old\<close> Python inserts
  \<open>new\<close> before every character and at the end.
\<close>

function replace_scan :: "string \<Rightarrow> string \<Rightarrow> string \<Rightarrow> string" where
  "replace_scan old new [] = []"
| "replace_scan old new (c # cs) =
     (if old \<noteq> [] \<and> take (length old) (c # cs) = old
      then new @ replace_scan old new (drop (length old) (c # cs))
      else c # replace_scan old new cs)"
  by pat_completeness auto
termination
  by (relation "measure (\<lambda>(old, new, s). length s)") auto

definition replace :: "string \<Rightarrow> string \<Rightarrow> string \<Rightarrow> string" where
  "replace s old new =
     (if old = [] then new @ concat (map (\<lambda>c. c # new) s) else replace_scan old new s)"

text \<open>\<open>str.upper()\<close> on ASCII text: the letters a..z move to A..Z, every other character stays.\<close>

definition upper_char :: "char \<Rightarrow> char" where
  "upper_char c =
     (case map_of (zip ''abcdefghijklmnopqrstuvwxyz'' ''ABCDEFGHIJKLMNOPQRSTUVWXYZ'') c of
        None \<Rightarrow> c
      | Some u \<Rightarrow> u)"

definition upper :: "string \<Rightarrow> string" where
  "upper s = map upper_char s"

text \<open>\<open>sub in s\<close>: substring test.\<close>

fun contains :: "string \<Rightarrow> string \<Rightarrow> bool" where
  "contains sub [] = (sub = [])"
| "contains sub (c # cs) = (take (length sub) (c # cs) = sub \<or> contains sub cs)"

text \<open>\<open>s.rstrip(chars)\<close>: drop the trailing characters that occur in \<open>chars\<close>.\<close>

definition rstrip :: "string \<Rightarrow> string \<Rightarrow> string" where
  "rstrip s chars = rev (dropWhile (\<lambda>c. c \<in> set chars) (rev s))"

text \<open>\<open>s.startswith(p)\<close>.\<close>

definition startswith :: "string \<Rightarrow> string \<Rightarrow> bool" where
  "startswith s p = (take (length p) s = p)"

text \<open>Truthiness of an optional string: \<open>None\<close> and the empty string are falsy.\<close>

definition truthy :: "string option \<Rightarrow> bool" where
  "truthy v = (case v of None \<Rightarrow> False | Some s \<Rightarrow> s \<noteq> [])"

text \<open>\<open>a or b\<close> on optional strings: \<open>a\<close> when it is truthy, else \<open>b\<close>.\<close>

definition py_or :: "string option \<Rightarrow> string option \<Rightarrow> string option" where
  "py_or a b = (if truthy a then a else b)"

text \<open>\<open>d.get(k, default)\<close> on a dictionary with string values.\<close>

definition get_default :: "(string \<rightharpoonup> string) \<Rightarrow> string \<Rightarrow> string \<Rightarrow> string" where
  "get_default d k dflt = (case d k of None \<Rightarrow> dflt | Some v \<Rightarrow> v)"

section \<open>Tenant context layer (application/layers/tenant-context.py)\<close>

text \<open>
  \<open>TenantContext\<close>: the tenant id and the user id come from \<open>dict.get\<close> without a default
  and may be \<open>None\<close>; the tier always has the default \<open>'pool'\<close>.
\<close>

record TenantContext =
  tenant_id :: "string option"
  tenant_tier :: string
  user_id :: "string option"

datatype error =
    ValueError string
  | AttributeError
  | DecodeError

text \<open>
  The connection parameters of \<open>get_database_connection_params\<close>. The process environment
  (\<open>os.environ\<close>) is a parameter of the model.
\<close>

record db_params =
  database :: "string option"
  schema :: string
  row_security_context :: "string option"

text \<open>The f-string \<open>f"tenant_{tenant_id.replace('-', '_')}"\<close>, shared with the onboarding function.\<close>

definition schema_name :: "string \<Rightarrow> string" where
  "schema_name tid = ''tenant_'' @ replace tid ''-'' ''_''"

text \<open>An f-string renders \<open>None\<close> as the text \<open>None\<close>.\<close>

definition fmt :: "string option \<Rightarrow> string" where
  "fmt v = (case v of None \<Rightarrow> ''None'' | Some s \<Rightarrow> s)"

definition get_database_connection_params ::
  "(string \<rightharpoonup> string) \<Rightarrow> TenantContext \<Rightarrow> error + db_params" where
  "get_database_connection_params environ tenant_context =
     (if tenant_tier tenant_context = ''pool'' then
        Inr \<lparr>database = environ ''POOL_DATABASE'', schema = ''public'',
             row_security_context = tenant_id tenant_context\<rparr>
      else if tenant_tier tenant_context = ''bridge'' then
        (case tenant_id tenant_context of
           None \<Rightarrow> Inl AttributeError
         | Some tid \<Rightarrow>
             Inr \<lparr>database = environ ''BRIDGE_DATABASE'', schema = schema_name tid,
                  row_security_context = None\<rparr>)
      else if tenant_tier tenant_context = ''silo'' then
        Inr \<lparr>database = Some (''tenant_'' @ fmt (tenant_id tenant_context)),
             schema = ''public'', row_security_context = None\<rparr>
      else Inl (ValueError (''Unknown tenant tier: '' @ tenant_tier tenant_context)))"

text \<open>
  The API Gateway event, as far as the resolver reads it: the \<open>claims\<close> entry of
  \<open>requestContext.authorizer\<close> when the authorizer attached one, and the request headers
  (an absent \<open>headers\<close> entry reads as the empty dictionary).
\<close>

record event =
  claims :: "(string \<rightharpoonup> string) option"
  headers :: "string \<rightharpoonup> string"

definition extract_token_from_header :: "event \<Rightarrow> string option" where
  "extract_token_from_header ev =
     (let auth_header = py_or (headers ev ''Authorization'') (headers ev ''authorization'')
      in case auth_header of
           None \<Rightarrow> None
         | Some h \<Rightarrow> if h \<noteq> [] \<and> startswith h ''Bearer '' then Some (drop 7 h) else None)"

text \<open>
  \<open>jwt.decode(token, options={"verify_signature": False})\<close> belongs to the PyJWT library:
  it is the parameter \<open>decode\<close>, which reads the token alone (no key) and gives the payload,
  or \<open>None\<close> where the library raises on a malformed token.
\<close>

definition extract_from_jwt ::
  "(string \<Rightarrow> (string \<rightharpoonup> string) option) \<Rightarrow> string \<Rightarrow> error + TenantContext" where
  "extract_from_jwt decode token =
     (case decode token of
        None \<Rightarrow> Inl DecodeError
      | Some decoded \<Rightarrow>
          Inr \<lparr>tenant_id = decoded ''custom:tenant_id'',
               tenant_tier = get_default decoded ''custom:tenant_tier'' ''pool'',
               user_id = decoded ''sub''\<rparr>)"

definition extract_tenant_context ::
  "(string \<Rightarrow> (string \<rightharpoonup> string) option) \<Rightarrow> event \<Rightarrow> error + TenantContext" where
  "extract_tenant_context decode ev =
     (case claims ev of
        Some c \<Rightarrow>
          Inr \<lparr>tenant_id = c ''custom:tenant_id'',
               tenant_tier = get_default c ''custom:tenant_tier'' ''pool'',
               user_id = c ''sub''\<rparr>
      | None \<Rightarrow>
          (let token = extract_token_from_header ev in
           case (if truthy token then token else None) of
             Some t \<Rightarrow> extract_from_jwt decode t
           | None \<Rightarrow>
               (let tid = py_or (headers ev ''X-Tenant-Id'') (headers ev ''x-tenant-id'') in
                if truthy tid then
                  Inr \<lparr>tenant_id = tid,
                       tenant_tier = get_default (headers ev) ''X-Tenant-Tier'' ''pool'',
                       user_id = None\<rparr>
                else Inl (ValueError ''No tenant context found in request''))))"

text \<open>The Lambda proxy response: status code and the fields of the JSON body.\<close>

record response =
  statusCode :: nat
  body :: "(string \<times> string) list"

definition error_str :: "error \<Rightarrow> string" where
  "error_str e =
     (case e of ValueError m \<Rightarrow> m | AttributeError \<Rightarrow> ''AttributeError''
      | DecodeError \<Rightarrow> ''DecodeError'')"

text \<open>
  The decorator \<open>with_tenant_context\<close>: a \<open>ValueError\<close> of the resolver or of the wrapped
  handler becomes a 401 response, every other exception a 500 response.
\<close>

definition with_tenant_context ::
  "(string \<Rightarrow> (string \<rightharpoonup> string) option) \<Rightarrow> (event \<Rightarrow> TenantContext \<Rightarrow> error + response)
     \<Rightarrow> event \<Rightarrow> response" where
  "with_tenant_context decode func ev =
     (let r = (case extract_tenant_context decode ev of
                 Inl e \<Rightarrow> Inl e
               | Inr tenant_context \<Rightarrow> func ev tenant_context)
      in case r of
           Inr resp \<Rightarrow> resp
         | Inl (ValueError m) \<Rightarrow>
             \<lparr>statusCode = 401, body = [(''error'', ''Unauthorized''), (''message'', m)]\<rparr>
         | Inl e \<Rightarrow>
             \<lparr>statusCode = 500,
              body = [(''error'', ''Internal Server Error''), (''message'', error_str e)]\<rparr>)"

text \<open>A value between single quotes, as the f-strings of the SQL text write it.\<close>

definition quoted :: "string \<Rightarrow> string" where
  "quoted s = [CHR 0x27] @ s @ [CHR 0x27]"

definition apply_tenant_filter :: "string \<Rightarrow> TenantContext \<Rightarrow> string" where
  "apply_tenant_filter query tenant_context =
     (if tenant_tier tenant_context = ''pool'' then
        (if contains ''WHERE'' (upper query) then
           replace query ''WHERE''
             (''WHERE tenant_id = '' @ quoted (fmt (tenant_id tenant_context)) @ '' AND'')
         else rstrip query '';'' @ '' WHERE tenant_id = ''
                @ quoted (fmt (tenant_id tenant_context)) @ '';'')
      else query)"

definition validate_tenant_access :: "TenantContext \<Rightarrow> string option \<Rightarrow> bool" where
  "validate_tenant_access tenant_context resource_tenant_id =
     (tenant_id tenant_context = resource_tenant_id)"

section \<open>Tenant management (tenant_handler.py)\<close>

text \<open>The tier tables are dictionaries; \<open>limits.get(tier, limits['basic'])\<close> falls back to basic.\<close>

definition basic_limits :: "(string \<times> int) list" where
  "basic_limits =
     [(''max_products'', 100), (''max_orders'', 1000), (''max_users'', 10),
      (''max_api_calls_per_hour'', 1000)]"

definition premium_limits :: "(string \<times> int) list" where
  "premium_limits =
     [(''max_products'', 1000), (''max_orders'', 10000), (''max_users'', 50),
      (''max_api_calls_per_hour'', 10000)]"

definition enterprise_limits :: "(string \<times> int) list" where
  "enterprise_limits =
     [(''max_products'', -1), (''max_orders'', -1), (''max_users'', -1),
      (''max_api_calls_per_hour'', 100000)]"

definition limits_table :: "(string \<times> (string \<times> int) list) list" where
  "limits_table =
     [(''basic'', basic_limits), (''premium'', premium_limits),
      (''enterprise'', enterprise_limits)]"

definition get_tier_limits :: "string \<Rightarrow> (string \<times> int) list" where
  "get_tier_limits tier =
     (case map_of limits_table tier of None \<Rightarrow> basic_limits | Some l \<Rightarrow> l)"

definition basic_features :: "(string \<times> bool) list" where
  "basic_features =
     [(''advanced_analytics'', False), (''custom_branding'', False), (''api_access'', True),
      (''priority_support'', False), (''data_export'', False)]"

definition premium_features :: "(string \<times> bool) list" where
  "premium_features =
     [(''advanced_analytics'', True), (''custom_branding'', True), (''api_access'', True),
      (''priority_support'', True), (''data_export'', True)]"

definition enterprise_features :: "(string \<times> bool) list" where
  "enterprise_features =
     [(''advanced_analytics'', True), (''custom_branding'', True), (''api_access'', True),
      (''priority_support'', True), (''data_export'', True), (''dedicated_support'', True),
      (''custom_integrations'', True)]"

definition features_table :: "(string \<times> (string \<times> bool) list) list" where
  "features_table =
     [(''basic'', basic_features), (''premium'', premium_features),
      (''enterprise'', enterprise_features)]"

definition get_tier_features :: "string \<Rightarrow> (string \<times> bool) list" where
  "get_tier_features tier =
     (case map_of features_table tier of None \<Rightarrow> basic_features | Some f \<Rightarrow> f)"

section \<open>Order handler on DynamoDB (order_handler.py)\<close>

text \<open>
  A DynamoDB item is a dictionary of attributes, a key a dictionary of the key attributes,
  and a table maps keys to items. \<open>get_item\<close> and \<open>update_item\<close> belong to boto3:
  \<open>update_item\<close> with a \<open>SET\<close> expression and no condition expression writes the
  attributes into the item stored under the key, creating the item from the key when there
  is none, and with \<open>ReturnValues='ALL_NEW'\<close> gives the item as written.
\<close>

type_synonym item = "(string \<times> string) list"
type_synonym key = "(string \<times> string) list"
type_synonym table = "(key \<times> item) list"

definition get_item :: "table \<Rightarrow> key \<Rightarrow> item option" where
  "get_item t k = map_of t k"

definition update_item :: "table \<Rightarrow> key \<Rightarrow> (string \<times> string) list \<Rightarrow> table \<times> item" where
  "update_item t k assignments =
     (let old = (case map_of t k of None \<Rightarrow> k | Some it \<Rightarrow> it);
          new = fold (\<lambda>(a, v). AList.update a v) assignments old
      in (AList.update k new t, new))"

definition valid_transitions :: "(string \<times> string list) list" where
  "valid_transitions =
     [(''pending'', [''confirmed'', ''cancelled'']),
      (''confirmed'', [''shipped'', ''cancelled'']),
      (''shipped'', [''delivered'', ''cancelled'']),
      (''delivered'', []),
      (''cancelled'', [])]"

text \<open>The current status is \<open>current_order.get('status')\<close>, \<open>None\<close> when the item has none.\<close>

definition is_valid_status_transition :: "string option \<Rightarrow> string \<Rightarrow> bool" where
  "is_valid_status_transition current new =
     (new \<in> set (case current of
                   None \<Rightarrow> []
                 | Some c \<Rightarrow> (case map_of valid_transitions c of None \<Rightarrow> [] | Some l \<Rightarrow> l)))"

record sns_message =
  topic_arn :: string
  subject :: string
  msg_tenant_id :: "string option"
  msg_order_id :: string
  msg_event_type :: string
  msg_timestamp :: string

text \<open>
  \<open>publish_order_event\<close>: the notification channel is the list of messages published so
  far; \<open>sns_ok\<close> tells whether \<open>sns_client.publish\<close> returns rather than raises, and
  \<open>now\<close> is the clock reading. The \<open>except\<close> clause swallows every failure.
\<close>

definition publish_order_event ::
  "string option \<Rightarrow> bool \<Rightarrow> string \<Rightarrow> TenantContext \<Rightarrow> string \<Rightarrow> string
     \<Rightarrow> sns_message list \<Rightarrow> sns_message list" where
  "publish_order_event SNS_TOPIC_ARN sns_ok now tenant_context order_id event_type published =
     (if \<not> truthy SNS_TOPIC_ARN then published
      else if sns_ok then
        published @
          [\<lparr>topic_arn = fmt SNS_TOPIC_ARN, subject = ''Order Event: '' @ event_type,
            msg_tenant_id = tenant_id tenant_context, msg_order_id = order_id,
            msg_event_type = event_type, msg_timestamp = now\<rparr>]
      else published)"

definition valid_statuses :: "string list" where
  "valid_statuses = [''pending'', ''confirmed'', ''shipped'', ''delivered'', ''cancelled'']"

definition error_response :: "nat \<Rightarrow> string \<Rightarrow> response" where
  "error_response code msg = \<lparr>statusCode = code, body = [(''error'', msg)]\<rparr>"

text \<open>
  \<open>update_order\<close>, first half (up to the transition check): the early returns are \<open>Inl\<close>,
  and a request that passes gives the key and the new status. A pool-model key needs the
  tenant id; with none boto3 raises and the handler's \<open>except\<close> answers 500.
\<close>

definition update_order_read ::
  "string \<Rightarrow> TenantContext \<Rightarrow> string option \<Rightarrow> string option \<Rightarrow> table
     \<Rightarrow> response + (key \<times> string)" where
  "update_order_read ISOLATION_MODEL tenant_context order_id status t =
     (if \<not> truthy order_id then Inl (error_response 400 ''order_id is required'')
      else if \<not> truthy status then Inl (error_response 400 ''status is required'')
      else if fmt status \<notin> set valid_statuses then
        Inl (error_response 400
               (''Invalid status. Must be one of: pending, confirmed, shipped, delivered, cancelled''))
      else if ISOLATION_MODEL = ''pool'' \<and> tenant_id tenant_context = None then
        Inl \<lparr>statusCode = 500,
             body = [(''error'', ''Failed to update order''), (''details'', ''tenant_id'')]\<rparr>
      else
        (let k = (if ISOLATION_MODEL = ''pool''
                  then [(''tenant_id'', fmt (tenant_id tenant_context)),
                        (''order_id'', fmt order_id)]
                  else [(''order_id'', fmt order_id)])
         in case get_item t k of
              None \<Rightarrow> Inl (error_response 404 ''Order not found'')
            | Some current_order \<Rightarrow>
                (let current_status = map_of current_order ''status'' in
                 if \<not> is_valid_status_transition current_status (fmt status) then
                   Inl (error_response 400
                          (''Cannot transition from '' @ fmt current_status @ '' to ''
                             @ fmt status))
                 else Inr (k, fmt status))))"

text \<open>
  \<open>update_order\<close>, second half: the write, the event and the 200 response. The attributes of
  the order as written are listed in the body under the prefix \<open>order.\<close>. The clock is
  read twice: \<open>now\<close> for \<open>updated_at\<close> and \<open>event_time\<close> for the event.
\<close>

definition update_order_write ::
  "string option \<Rightarrow> bool \<Rightarrow> string \<Rightarrow> string \<Rightarrow> TenantContext \<Rightarrow> string \<Rightarrow> key
     \<Rightarrow> string \<Rightarrow> table \<times> sns_message list \<Rightarrow> response \<times> table \<times> sns_message list" where
  "update_order_write SNS_TOPIC_ARN sns_ok now event_time tenant_context order_id k new_status
     st =
     (let (t', attributes) =
            update_item (fst st) k [(''status'', new_status), (''updated_at'', now)];
          published' =
            publish_order_event SNS_TOPIC_ARN sns_ok event_time tenant_context order_id
              (''ORDER_'' @ upper new_status) (snd st)
      in (\<lparr>statusCode = 200,
           body = (''message'', ''Order updated successfully'')
                    # map (\<lambda>(a, v). (''order.'' @ a, v)) attributes\<rparr>,
          t', published'))"

definition update_order ::
  "string \<Rightarrow> string option \<Rightarrow> bool \<Rightarrow> string \<Rightarrow> string \<Rightarrow> TenantContext \<Rightarrow> string option
     \<Rightarrow> string option \<Rightarrow> table \<times> sns_message list
     \<Rightarrow> response \<times> table \<times> sns_message list" where
  "update_order ISOLATION_MODEL SNS_TOPIC_ARN sns_ok now event_time tenant_context order_id status
     st =
     (case update_order_read ISOLATION_MODEL tenant_context order_id status (fst st) of
        Inl resp \<Rightarrow> (resp, st)
      | Inr (k, new_status) \<Rightarrow>
          update_order_write SNS_TOPIC_ARN sns_ok now event_time tenant_context (fmt order_id) k
            new_status st)"

section \<open>Order service on PostgreSQL (application/lambda-functions/order_service.py)\<close>

text \<open>
  The rows of the \<open>orders\<close> table that the connection resolves to. The statement
  \<open>UPDATE orders SET status = %s, updated_at = NOW() WHERE order_id = %s [AND tenant_id = %s]
  RETURNING ...\<close> rewrites every matching row, and \<open>fetchone\<close> gives the first of them.
  A comparison with a null tenant id matches no row.
\<close>

record order_row =
  row_order_id :: string
  row_tenant_id :: "string option"
  row_order_number :: string
  row_status :: string
  row_updated_at :: string

definition service_statuses :: "string list" where
  "service_statuses = [''pending'', ''processing'', ''shipped'', ''delivered'', ''cancelled'']"

definition row_matches :: "string \<Rightarrow> TenantContext \<Rightarrow> order_row \<Rightarrow> bool" where
  "row_matches order_id tenant_context r =
     (row_order_id r = order_id \<and>
      (if tenant_tier tenant_context = ''pool''
       then (case tenant_id tenant_context of
               None \<Rightarrow> False
             | Some t \<Rightarrow> row_tenant_id r = Some t)
       else True))"

definition update_order_status ::
  "string \<Rightarrow> string option \<Rightarrow> TenantContext \<Rightarrow> string \<Rightarrow> order_row list
     \<Rightarrow> response \<times> order_row list" where
  "update_order_status order_id status tenant_context now rows =
     (case status of
        None \<Rightarrow> (error_response 400 ''Missing status field'', rows)
      | Some new_status \<Rightarrow>
          if new_status \<notin> set service_statuses then
            (error_response 400
               ''Invalid status. Must be one of: pending, processing, shipped, delivered, cancelled'',
             rows)
          else
            (let rows' = map (\<lambda>r. if row_matches order_id tenant_context r
                                  then r\<lparr>row_status := new_status, row_updated_at := now\<rparr>
                                  else r) rows
             in case filter (row_matches order_id tenant_context) rows' of
                  [] \<Rightarrow> (error_response 404 ''Order not found'', rows')
                | row # _ \<Rightarrow>
                    (\<lparr>statusCode = 200,
                      body = [(''message'', ''Order status updated''),
                              (''order.order_id'', row_order_id row),
                              (''order.order_number'', row_order_number row),
                              (''order.status'', row_status row),
                              (''order.updated_at'', row_updated_at row)]\<rparr>,
                     rows')))"

section \<open>Limit check\<close>

text \<open>
  Modelled from the spec: \<open>check_tenant_limits\<close> of the shared layer \<open>tenant_utils\<close>, which
  \<open>create_product\<close> and \<open>create_order\<close> call before they write and which is not among the
  sources. The spec's contract: a limit value of -1 means unlimited and always allows;
  otherwise the creation is allowed iff \<open>current_count < limit\<close>.
\<close>

definition allow_create :: "int \<Rightarrow> int \<Rightarrow> bool" where
  "allow_create limit current_count = (if limit = -1 then True else current_count < limit)"

section \<open>Tenant registration and tier update\<close>

text \<open>
  A tenant record holds strings, the limits and features dictionaries and, in the
  onboarding function, the settings dictionary. The tenants table maps a tenant id to its
  record; \<open>put_item\<close> stores a record under its id, and \<open>update_item\<close> writes attributes
  into the record stored under the id, as for the orders table.
\<close>

datatype attr =
    S string
  | Limits "(string \<times> int) list"
  | Features "(string \<times> bool) list"
  | Settings "(string \<times> string) list"

type_synonym tenant_item = "(string \<times> attr) list"
type_synonym tenant_table = "(string \<times> tenant_item) list"

text \<open>The 500 response of an \<open>except Exception\<close> clause: a summary and \<open>str(e)\<close>.\<close>

definition failure :: "string \<Rightarrow> string \<Rightarrow> response" where
  "failure msg details = \<lparr>statusCode = 500, body = [(''error'', msg), (''details'', details)]\<rparr>"

text \<open>\<open>sep.join(xs)\<close>.\<close>

fun join :: "string \<Rightarrow> string list \<Rightarrow> string" where
  "join sep [] = []"
| "join sep [x] = x"
| "join sep (x # y # ys) = x @ sep @ join sep (y # ys)"

text \<open>
  \<open>register_tenant\<close> of tenant_handler.py. The request body \<open>req\<close> is the parsed JSON
  object with string values; \<open>new_id\<close> is the generated uuid and \<open>created\<close>, \<open>updated\<close> are
  the two clock readings. \<open>create_tenant_user_group\<close> swallows its own failures.
  \<open>provision\<close> is the message of the exception that \<open>provision_silo_resources\<close> raises, and
  \<open>logged\<close> that of \<open>log_tenant_activity\<close> (shared layer), \<open>None\<close> when the call returns.
\<close>

definition register_tenant ::
  "string option \<Rightarrow> string option \<Rightarrow> string \<Rightarrow> string \<Rightarrow> string \<Rightarrow> (string \<rightharpoonup> string)
     \<Rightarrow> tenant_table \<Rightarrow> response \<times> tenant_table" where
  "register_tenant provision logged new_id created updated req t =
     (let company_name = req ''company_name'';
          admin_email = req ''admin_email'';
          tier = get_default req ''tier'' ''basic'';
          isolation_model = get_default req ''isolation_model'' ''pool''
      in if \<not> truthy company_name \<or> \<not> truthy admin_email then
           (error_response 400 ''company_name and admin_email are required'', t)
         else
           (let tenant_record =
                  [(''tenant_id'', S new_id),
                   (''company_name'', S (fmt company_name)),
                   (''admin_email'', S (fmt admin_email)),
                   (''tier'', S tier),
                   (''isolation_model'', S isolation_model),
                   (''status'', S ''active''),
                   (''created_at'', S created),
                   (''updated_at'', S updated),
                   (''limits'', Limits (get_tier_limits tier)),
                   (''features'', Features (get_tier_features tier))];
                t' = AList.update new_id tenant_record t
            in case (if isolation_model = ''silo'' then provision else None) of
                 Some msg \<Rightarrow> (failure ''Failed to register tenant'' msg, t')
               | None \<Rightarrow>
                   (case logged of
                      Some msg \<Rightarrow> (failure ''Failed to register tenant'' msg, t')
                    | None \<Rightarrow>
                        (\<lparr>statusCode = 201,
                          body = [(''message'', ''Tenant registered successfully''),
                                  (''tenant_id'', new_id), (''tier'', tier),
                                  (''isolation_model'', isolation_model)]\<rparr>,
                         t'))))"

text \<open>
  \<open>update_tenant\<close> of tenant_handler.py: \<open>path_tenant_id\<close> is the path parameter, \<open>new_tier\<close>
  and \<open>status\<close> are the entries \<open>tier\<close> and \<open>status\<close> of the request body when present.
  Without a status the handler passes \<open>ExpressionAttributeNames=None\<close>, which boto3's
  parameter validation refuses before any write (a dictionary is required), and a key
  without a tenant id is refused likewise; the \<open>except\<close> clause answers 500 with the
  library's message, abbreviated here. The attributes returned under \<open>tenant\<close> in the 200
  body are the record as stored.
\<close>

definition update_tenant ::
  "string \<Rightarrow> TenantContext \<Rightarrow> string option \<Rightarrow> string option \<Rightarrow> string option
     \<Rightarrow> tenant_table \<Rightarrow> response \<times> tenant_table" where
  "update_tenant now tenant_context path_tenant_id new_tier status t =
     (if tenant_id tenant_context \<noteq> path_tenant_id then
        (error_response 403 ''Access denied'', t)
      else
        (case status of
           None \<Rightarrow> (failure ''Failed to update tenant'' ''Parameter validation failed'', t)
         | Some st \<Rightarrow>
             (case path_tenant_id of
                None \<Rightarrow> (failure ''Failed to update tenant'' ''Parameter validation failed'', t)
              | Some tid \<Rightarrow>
                  (let assignments =
                         [(''updated_at'', S now)]
                         @ (case new_tier of
                              None \<Rightarrow> []
                            | Some tr \<Rightarrow>
                                [(''tier'', S tr),
                                 (''limits'', Limits (get_tier_limits tr)),
                                 (''features'', Features (get_tier_features tr))])
                         @ [(''status'', S st)];
                       old = (case map_of t tid of
                                None \<Rightarrow> [(''tenant_id'', S tid)]
                              | Some it \<Rightarrow> it);
                       new = fold (\<lambda>(a, v). AList.update a v) assignments old
                   in (\<lparr>statusCode = 200,
                        body = [(''message'', ''Tenant updated successfully'')]\<rparr>,
                       AList.update tid new t)))))"

text \<open>
  \<open>lambda_handler\<close> of tenant-onboarding.py. \<open>provision\<close> is the message of the exception
  raised by the provisioning function of the tier, \<open>None\<close> when it returns; \<open>admin\<close> is the
  outcome of \<open>create_admin_user\<close>: the created user's name, an existing user, or a Cognito
  failure with its message. A tier other than pool, bridge and silo raises
  \<open>ValueError\<close> after the metadata is saved.
\<close>

datatype admin_outcome = Created string | Exists | AdminFailed string

definition lambda_handler ::
  "string option \<Rightarrow> admin_outcome \<Rightarrow> string \<Rightarrow> string \<Rightarrow> string \<Rightarrow> (string \<rightharpoonup> string)
     \<Rightarrow> (string \<times> string) list option \<Rightarrow> tenant_table \<Rightarrow> response \<times> tenant_table" where
  "lambda_handler provision admin new_id created updated req settings t =
     (let missing_fields =
            filter (\<lambda>field. req field = None) [''company_name'', ''admin_email'', ''tier'']
      in if missing_fields \<noteq> [] then
           (error_response 400 (''Missing required fields: '' @ join '', '' missing_fields), t)
         else
           (let tier = fmt (req ''tier'');
                tenant_data =
                  [(''tenant_id'', S new_id),
                   (''company_name'', S (fmt (req ''company_name''))),
                   (''admin_email'', S (fmt (req ''admin_email''))),
                   (''tier'', S tier),
                   (''status'', S ''provisioning''),
                   (''created_at'', S created),
                   (''settings'', Settings (case settings of None \<Rightarrow> [] | Some m \<Rightarrow> m))];
                t1 = AList.update new_id tenant_data t;
                raised =
                  (if tier = ''pool'' then provision
                   else if tier = ''bridge'' then provision
                   else if tier = ''silo'' then provision
                   else Some (''Invalid tier: '' @ tier))
            in case raised of
                 Some msg \<Rightarrow> (failure ''Failed to onboard tenant'' msg, t1)
               | None \<Rightarrow>
                   (case admin of
                      AdminFailed msg \<Rightarrow> (failure ''Failed to onboard tenant'' msg, t1)
                    | _ \<Rightarrow>
                        (let stored =
                               fold (\<lambda>(a, v). AList.update a v)
                                 [(''status'', S ''active''), (''updated_at'', S updated)]
                                 tenant_data
                         in (\<lparr>statusCode = 201,
                              body = [(''message'', ''Tenant onboarded successfully''),
                                      (''tenant_id'', new_id),
                                      (''admin_user.username'', fmt (req ''admin_email''))]
                                     @ (case admin of
                                          Created sub \<Rightarrow> [(''admin_user.user_sub'', sub)]
                                        | _ \<Rightarrow> [(''admin_user.exists'', ''true'')])\<rparr>,
                             AList.update new_id stored t1)))))"

section \<open>Properties\<close>

subsection \<open>String helpers\<close>

lemma replace_scan_char:
  "replace_scan [a] [b] s = map (\<lambda>c. if c = a then b else c) s"
  by (induction s) auto

lemma schema_name_map:
  "schema_name tid = ''tenant_'' @ map (\<lambda>c. if c = CHR ''-'' then CHR ''_'' else c) tid"
  by (simp add: schema_name_def replace_def replace_scan_char)

subsection \<open>Tenant filter on SQL text\<close>

text \<open>Without any \<open>WHERE\<close> the predicate is appended, and an upper-case \<open>WHERE\<close> is
  extended with it.\<close>

lemma apply_tenant_filter_appends:
  "tenant_tier tenant_context = ''pool'' \<Longrightarrow> \<not> contains ''WHERE'' (upper query) \<Longrightarrow>
   apply_tenant_filter query tenant_context
     = rstrip query '';'' @ '' WHERE tenant_id = '' @ quoted (fmt (tenant_id tenant_context))
         @ '';''"
  by (simp add: apply_tenant_filter_def)

lemma apply_tenant_filter_uppercase_where:
  "apply_tenant_filter ''SELECT * FROM orders WHERE id = 1''
     \<lparr>tenant_id = Some ''t1'', tenant_tier = ''pool'', user_id = None\<rparr>
   = ''SELECT * FROM orders WHERE tenant_id = '' @ quoted ''t1'' @ '' AND id = 1''"
  by code_simp

text \<open>
  C1. Cross-tenant isolation asks that every query built for a pool-tier context carries an
  equality predicate on \<open>tenant_id\<close> with the context's tenant id. \<open>apply_tenant_filter\<close>
  looks for \<open>WHERE\<close> in the upper-cased query but replaces the upper-case text only: a
  query whose keyword is written \<open>where\<close> comes back as it went in, with no tenant
  predicate at all.
\<close>

theorem apply_tenant_filter_lowercase_where:
  "apply_tenant_filter ''select * from orders where id = 1''
     \<lparr>tenant_id = Some ''t1'', tenant_tier = ''pool'', user_id = None\<rparr>
   = ''select * from orders where id = 1''
   \<and> \<not> contains ''tenant_id''
         (apply_tenant_filter ''select * from orders where id = 1''
            \<lparr>tenant_id = Some ''t1'', tenant_tier = ''pool'', user_id = None\<rparr>)"
  by code_simp

subsection \<open>Order status transitions\<close>

lemma transitions_of:
  "map_of valid_transitions c =
     (if c = ''pending'' then Some [''confirmed'', ''cancelled'']
      else if c = ''confirmed'' then Some [''shipped'', ''cancelled'']
      else if c = ''shipped'' then Some [''delivered'', ''cancelled'']
      else if c = ''delivered'' then Some []
      else if c = ''cancelled'' then Some []
      else None)"
  by (simp add: valid_transitions_def)

text \<open>The rule of the DynamoDB handler is exactly the six pairs of the transition table.\<close>

lemma is_valid_status_transition_iff:
  "is_valid_status_transition cur new \<longleftrightarrow>
     (cur, new) \<in> {(Some ''pending'', ''confirmed''), (Some ''pending'', ''cancelled''),
                   (Some ''confirmed'', ''shipped''), (Some ''confirmed'', ''cancelled''),
                   (Some ''shipped'', ''delivered''), (Some ''shipped'', ''cancelled'')}"
proof (cases cur)
  case None
  then show ?thesis by (simp add: is_valid_status_transition_def)
next
  case (Some c)
  then show ?thesis
    unfolding is_valid_status_transition_def transitions_of
    by (simp split: if_splits)
qed

text \<open>
  C2. Order status transitions follow the table pending to confirmed or cancelled, confirmed
  to shipped or cancelled, shipped to delivered or cancelled, and nothing leaves delivered or
  cancelled. The DynamoDB handler checks the table (\<open>is_valid_status_transition_iff\<close>); the
  PostgreSQL service \<open>update_order_status\<close> does not: on a delivered order the request for
  \<open>cancelled\<close> answers 200 and rewrites the row, although the table has no such pair, and
  the request for \<open>confirmed\<close> on a pending order, which the table allows, is refused as an
  unknown status.
\<close>

theorem update_order_status_ignores_table:
  "update_order_status ''o1'' (Some ''cancelled'')
     \<lparr>tenant_id = Some ''t1'', tenant_tier = ''pool'', user_id = None\<rparr> ''t2''
     [\<lparr>row_order_id = ''o1'', row_tenant_id = Some ''t1'', row_order_number = ''ORD-1'',
       row_status = ''delivered'', row_updated_at = ''t1''\<rparr>]
   = (\<lparr>statusCode = 200,
       body = [(''message'', ''Order status updated''), (''order.order_id'', ''o1''),
               (''order.order_number'', ''ORD-1''), (''order.status'', ''cancelled''),
               (''order.updated_at'', ''t2'')]\<rparr>,
      [\<lparr>row_order_id = ''o1'', row_tenant_id = Some ''t1'', row_order_number = ''ORD-1'',
        row_status = ''cancelled'', row_updated_at = ''t2''\<rparr>])
   \<and> \<not> is_valid_status_transition (Some ''delivered'') ''cancelled''
   \<and> statusCode (fst (update_order_status ''o1'' (Some ''confirmed'')
        \<lparr>tenant_id = Some ''t1'', tenant_tier = ''pool'', user_id = None\<rparr> ''t2''
        [\<lparr>row_order_id = ''o1'', row_tenant_id = Some ''t1'', row_order_number = ''ORD-1'',
          row_status = ''pending'', row_updated_at = ''t1''\<rparr>])) = 400
   \<and> is_valid_status_transition (Some ''pending'') ''confirmed''"
  by (simp add: update_order_status_def service_statuses_def row_matches_def
       error_response_def is_valid_status_transition_def valid_transitions_def)

text \<open>
  The PostgreSQL service under a pool-tier context leaves every row of another tenant as it
  is, and rewrites a matching row whatever status it holds.
\<close>

lemma row_matches_update:
  "row_matches order_id tenant_context (r\<lparr>row_status := s, row_updated_at := now\<rparr>)
     = row_matches order_id tenant_context r"
  by (simp add: row_matches_def split: option.splits)

lemma unmatched_row_kept:
  "r \<in> set rows \<Longrightarrow> \<not> P r \<Longrightarrow> r \<in> set (map (\<lambda>x. if P x then g x else x) rows)"
  by (induction rows) auto

lemma matched_row_updated:
  "r \<in> set rows \<Longrightarrow> P r \<Longrightarrow> g r \<in> set (map (\<lambda>x. if P x then g x else x) rows)"
  by (induction rows) auto

lemma update_order_status_pool_isolated:
  assumes "tenant_tier tenant_context = ''pool''"
    and "row_tenant_id r \<noteq> tenant_id tenant_context"
    and "r \<in> set rows"
  shows "r \<in> set (snd (update_order_status order_id status tenant_context now rows))"
proof -
  from assms(1,2) have nm: "\<not> row_matches order_id tenant_context r"
    by (auto simp: row_matches_def split: option.splits)
  show ?thesis
  proof (cases status)
    case None
    with assms(3) show ?thesis by (simp add: update_order_status_def)
  next
    case (Some new)
    have kept: "r \<in> set (map (\<lambda>x. if row_matches order_id tenant_context x
                  then x\<lparr>row_status := new, row_updated_at := now\<rparr> else x) rows)"
      using assms(3) nm by (rule unmatched_row_kept)
    show ?thesis
      using Some assms(3) kept
      by (simp add: update_order_status_def Let_def split: list.splits)
  qed
qed

lemma update_order_status_unconditional:
  assumes "new \<in> set service_statuses" and "r \<in> set rows"
    and "row_matches order_id tenant_context r"
  shows "statusCode (fst (update_order_status order_id (Some new) tenant_context now rows)) = 200
    \<and> r\<lparr>row_status := new, row_updated_at := now\<rparr>
           \<in> set (snd (update_order_status order_id (Some new) tenant_context now rows))"
proof -
  let ?rows' = "map (\<lambda>x. if row_matches order_id tenant_context x
                  then x\<lparr>row_status := new, row_updated_at := now\<rparr> else x) rows"
  have in_map: "r\<lparr>row_status := new, row_updated_at := now\<rparr> \<in> set ?rows'"
    using assms(2,3) by (rule matched_row_updated)
  have m: "row_matches order_id tenant_context (r\<lparr>row_status := new, row_updated_at := now\<rparr>)"
    using assms(3) by (simp only: row_matches_update)
  from in_map m have ne: "filter (row_matches order_id tenant_context) ?rows' \<noteq> []"
    unfolding filter_empty_conv by blast
  then obtain x xs where c: "filter (row_matches order_id tenant_context) ?rows' = x # xs"
    by (cases "filter (row_matches order_id tenant_context) ?rows'") auto
  show ?thesis
    using assms(1) c in_map by (simp add: update_order_status_def Let_def)
qed

lemma valid_transition_target:
  "is_valid_status_transition cur new \<Longrightarrow> new \<in> set valid_statuses \<and> new \<noteq> []"
  by (auto simp: is_valid_status_transition_iff valid_statuses_def)

text \<open>
  The DynamoDB handler on an existing order: a pair of the table passes the first half of
  \<open>update_order\<close>, any other pair is answered 400, and a refused request leaves the table
  and the channel as they were.
\<close>

lemma update_order_read_ok:
  assumes "truthy order_id"
    and "ISOLATION_MODEL = ''pool'' \<longrightarrow> tenant_id tenant_context \<noteq> None"
    and "k = (if ISOLATION_MODEL = ''pool''
              then [(''tenant_id'', fmt (tenant_id tenant_context)), (''order_id'', fmt order_id)]
              else [(''order_id'', fmt order_id)])"
    and "get_item t k = Some current_order"
    and "is_valid_status_transition (map_of current_order ''status'') new"
  shows "update_order_read ISOLATION_MODEL tenant_context order_id (Some new) t = Inr (k, new)"
  using assms valid_transition_target [of "map_of current_order ''status''" new]
  by (simp add: update_order_read_def truthy_def fmt_def Let_def)

lemma update_order_read_rejects:
  assumes "truthy order_id"
    and "ISOLATION_MODEL = ''pool'' \<longrightarrow> tenant_id tenant_context \<noteq> None"
    and "k = (if ISOLATION_MODEL = ''pool''
              then [(''tenant_id'', fmt (tenant_id tenant_context)), (''order_id'', fmt order_id)]
              else [(''order_id'', fmt order_id)])"
    and "get_item t k = Some current_order"
    and "\<not> is_valid_status_transition (map_of current_order ''status'') new"
  shows "\<exists>resp. update_order_read ISOLATION_MODEL tenant_context order_id (Some new) t = Inl resp
           \<and> statusCode resp = 400"
  using assms
  by (auto simp: update_order_read_def truthy_def fmt_def Let_def error_response_def)

lemma update_order_rejected_unchanged:
  "update_order_read ISOLATION_MODEL tenant_context order_id status (fst st) = Inl resp \<Longrightarrow>
   update_order ISOLATION_MODEL SNS_TOPIC_ARN sns_ok now event_time tenant_context order_id
       status st
     = (resp, st)"
  by (simp add: update_order_def)

subsection \<open>The write of the status update\<close>

lemma update_item_stored:
  "get_item (fst (update_item t k [(''status'', s), (''updated_at'', now)])) k
     = Some (snd (update_item t k [(''status'', s), (''updated_at'', now)]))"
  by (simp add: update_item_def get_item_def Let_def update_conv')

lemma update_item_status:
  "map_of (snd (update_item t k [(''status'', s), (''updated_at'', now)])) ''status'' = Some s"
  by (simp add: update_item_def Let_def update_conv')

text \<open>
  C3, as the code has it. The write of \<open>update_order\<close> carries no condition on the status
  that was read: whatever the table holds under the key at write time, the write answers 200
  and the stored status becomes the new status. There is no \<open>ConflictingTransition\<close>
  outcome, and of two requests that read the same status both succeed, the later write
  standing.
\<close>

theorem update_order_write_unconditional:
  "statusCode (fst (update_order_write SNS_TOPIC_ARN sns_ok now event_time tenant_context
                      order_id k s (t, published))) = 200 \<and>
   (\<exists>it. get_item (fst (snd (update_order_write SNS_TOPIC_ARN sns_ok now event_time
                                tenant_context order_id k s (t, published)))) k = Some it
         \<and> map_of it ''status'' = Some s)"
  using update_item_stored [of t k s now] update_item_status [of t k s now]
  by (simp add: update_order_write_def Let_def split_beta)

text \<open>
  Two requests on the pending order \<open>o1\<close>: the first cancels it; the second read
  \<open>pending\<close> before that write and asks for \<open>confirmed\<close>. At its write the stored status
  is \<open>cancelled\<close>, not the status it read, and the write still answers 200 and moves the
  order out of the terminal state.
\<close>

theorem update_order_stale_write_succeeds:
  "update_order ''pool'' None True ''t1'' ''e1''
     \<lparr>tenant_id = Some ''t1'', tenant_tier = ''pool'', user_id = None\<rparr>
     (Some ''o1'') (Some ''cancelled'')
     ([([(''tenant_id'', ''t1''), (''order_id'', ''o1'')],
        [(''tenant_id'', ''t1''), (''order_id'', ''o1''), (''status'', ''pending'')])], [])
   = (\<lparr>statusCode = 200,
       body = [(''message'', ''Order updated successfully''), (''order.tenant_id'', ''t1''),
               (''order.order_id'', ''o1''), (''order.status'', ''cancelled''),
               (''order.updated_at'', ''t1'')]\<rparr>,
      [([(''tenant_id'', ''t1''), (''order_id'', ''o1'')],
        [(''tenant_id'', ''t1''), (''order_id'', ''o1''), (''status'', ''cancelled''),
         (''updated_at'', ''t1'')])], [])
   \<and> update_order_read ''pool''
     \<lparr>tenant_id = Some ''t1'', tenant_tier = ''pool'', user_id = None\<rparr>
     (Some ''o1'') (Some ''confirmed'')
     [([(''tenant_id'', ''t1''), (''order_id'', ''o1'')],
       [(''tenant_id'', ''t1''), (''order_id'', ''o1''), (''status'', ''pending'')])]
   = Inr ([(''tenant_id'', ''t1''), (''order_id'', ''o1'')], ''confirmed'')
   \<and> update_order_write None True ''t2'' ''e2''
     \<lparr>tenant_id = Some ''t1'', tenant_tier = ''pool'', user_id = None\<rparr>
     ''o1'' [(''tenant_id'', ''t1''), (''order_id'', ''o1'')] ''confirmed''
     ([([(''tenant_id'', ''t1''), (''order_id'', ''o1'')],
        [(''tenant_id'', ''t1''), (''order_id'', ''o1''), (''status'', ''cancelled''),
         (''updated_at'', ''t1'')])], [])
   = (\<lparr>statusCode = 200,
       body = [(''message'', ''Order updated successfully''), (''order.tenant_id'', ''t1''),
               (''order.order_id'', ''o1''), (''order.status'', ''confirmed''),
               (''order.updated_at'', ''t2'')]\<rparr>,
      [([(''tenant_id'', ''t1''), (''order_id'', ''o1'')],
        [(''tenant_id'', ''t1''), (''order_id'', ''o1''), (''status'', ''confirmed''),
         (''updated_at'', ''t2'')])], [])"
  by code_simp

subsection \<open>The order event\<close>

text \<open>
  C9, as the code has it. When the first half of \<open>update_order\<close> accepts the request, the
  handler answers 200 and the stored status is the new status, whether or not a topic is
  configured and whether or not the publish call fails. The event, with the tenant id, the
  order id, the type \<open>ORDER_\<close> followed by the upper-cased new status and the timestamp,
  reaches the channel exactly when \<open>SNS_TOPIC_ARN\<close> is set and the publish call returns;
  with no topic configured nothing is published.
\<close>

theorem update_order_event_best_effort:
  "update_order_read ISOLATION_MODEL tenant_context order_id status t = Inr (k, s) \<Longrightarrow>
   statusCode (fst (update_order ISOLATION_MODEL SNS_TOPIC_ARN sns_ok now event_time
                      tenant_context order_id status (t, published))) = 200
   \<and> (\<exists>it. get_item (fst (snd (update_order ISOLATION_MODEL SNS_TOPIC_ARN sns_ok now event_time
                                   tenant_context order_id status (t, published)))) k = Some it
           \<and> map_of it ''status'' = Some s)
   \<and> snd (snd (update_order ISOLATION_MODEL SNS_TOPIC_ARN sns_ok now event_time tenant_context
                  order_id status (t, published)))
     = (if truthy SNS_TOPIC_ARN \<and> sns_ok
        then published @
               [\<lparr>topic_arn = fmt SNS_TOPIC_ARN, subject = ''Order Event: ORDER_'' @ upper s,
                 msg_tenant_id = tenant_id tenant_context, msg_order_id = fmt order_id,
                 msg_event_type = ''ORDER_'' @ upper s, msg_timestamp = event_time\<rparr>]
        else published)"
  using update_item_stored [of t k s now] update_item_status [of t k s now]
  by (simp add: update_order_def update_order_write_def publish_order_event_def Let_def
        split_beta)

text \<open>A failing publish on a configured topic: the answer is 200 and the channel is empty.\<close>

theorem update_order_event_best_effort_witness:
  "update_order_read ''pool''
     \<lparr>tenant_id = Some ''t1'', tenant_tier = ''pool'', user_id = None\<rparr>
     (Some ''o1'') (Some ''confirmed'')
     [([(''tenant_id'', ''t1''), (''order_id'', ''o1'')],
       [(''tenant_id'', ''t1''), (''order_id'', ''o1''), (''status'', ''pending'')])]
   = Inr ([(''tenant_id'', ''t1''), (''order_id'', ''o1'')], ''confirmed'')
   \<and> statusCode (fst (update_order ''pool'' (Some ''arn:aws:sns:orders'') False ''t2'' ''e2''
        \<lparr>tenant_id = Some ''t1'', tenant_tier = ''pool'', user_id = None\<rparr>
        (Some ''o1'') (Some ''confirmed'')
        ([([(''tenant_id'', ''t1''), (''order_id'', ''o1'')],
           [(''tenant_id'', ''t1''), (''order_id'', ''o1''), (''status'', ''pending'')])], [])))
     = 200
   \<and> snd (snd (update_order ''pool'' (Some ''arn:aws:sns:orders'') False ''t2'' ''e2''
        \<lparr>tenant_id = Some ''t1'', tenant_tier = ''pool'', user_id = None\<rparr>
        (Some ''o1'') (Some ''confirmed'')
        ([([(''tenant_id'', ''t1''), (''order_id'', ''o1'')],
           [(''tenant_id'', ''t1''), (''order_id'', ''o1''), (''status'', ''pending'')])], [])))
     = []"
proof -
  have h: "update_order_read ''pool''
     \<lparr>tenant_id = Some ''t1'', tenant_tier = ''pool'', user_id = None\<rparr>
     (Some ''o1'') (Some ''confirmed'')
     [([(''tenant_id'', ''t1''), (''order_id'', ''o1'')],
       [(''tenant_id'', ''t1''), (''order_id'', ''o1''), (''status'', ''pending'')])]
   = Inr ([(''tenant_id'', ''t1''), (''order_id'', ''o1'')], ''confirmed'')"
    by code_simp
  from update_order_event_best_effort [OF h, of "Some ''arn:aws:sns:orders''" False "''t2''" "''e2''" "[]"] h
  show ?thesis by simp
qed

text \<open>
  With \<open>SNS_TOPIC_ARN\<close> unset and a publish call that would have returned, the update
  succeeds and no event is published.
\<close>

theorem update_order_no_topic_no_event:
  "update_order ''pool'' None True ''t2'' ''e2''
     \<lparr>tenant_id = Some ''t1'', tenant_tier = ''pool'', user_id = None\<rparr>
     (Some ''o1'') (Some ''confirmed'')
     ([([(''tenant_id'', ''t1''), (''order_id'', ''o1'')],
        [(''tenant_id'', ''t1''), (''order_id'', ''o1''), (''status'', ''pending'')])], [])
   = (\<lparr>statusCode = 200,
       body = [(''message'', ''Order updated successfully''), (''order.tenant_id'', ''t1''),
               (''order.order_id'', ''o1''), (''order.status'', ''confirmed''),
               (''order.updated_at'', ''t2'')]\<rparr>,
      [([(''tenant_id'', ''t1''), (''order_id'', ''o1'')],
        [(''tenant_id'', ''t1''), (''order_id'', ''o1''), (''status'', ''confirmed''),
         (''updated_at'', ''t2'')])],
      [])"
  by code_simp

subsection \<open>Resolving the tenant context\<close>

text \<open>With no claims, no bearer token and no tenant id header the resolver raises and the
  decorator answers 401.\<close>

lemma no_credentials_unauthorized:
  assumes "claims ev = None" "\<not> truthy (extract_token_from_header ev)"
    "\<not> truthy (py_or (headers ev ''X-Tenant-Id'') (headers ev ''x-tenant-id''))"
  shows "extract_tenant_context decode ev = Inl (ValueError ''No tenant context found in request'')"
    and "statusCode (with_tenant_context decode func ev) = 401"
  using assms by (simp_all add: extract_tenant_context_def with_tenant_context_def Let_def)

lemma bearer_token:
  "headers ev ''Authorization'' = Some (''Bearer '' @ tok) \<Longrightarrow>
   extract_token_from_header ev = Some tok"
  by (simp add: extract_token_from_header_def py_or_def truthy_def startswith_def)

text \<open>
  C6. A request from which no credential source yields a tenant id must fail as
  unauthenticated and never produce a context without a tenant id. The header path checks
  the tenant id (\<open>no_credentials_unauthorized\<close>), the claims path does not: with an
  authorizer \<open>claims\<close> entry that has no \<open>custom:tenant_id\<close>, no bearer token and no tenant
  header, the resolver returns a context whose tenant id is \<open>None\<close>, and the decorator runs
  the handler with it.
\<close>

theorem extract_tenant_context_claims_without_tenant:
  "extract_tenant_context decode \<lparr>claims = Some Map.empty, headers = Map.empty\<rparr>
     = Inr \<lparr>tenant_id = None, tenant_tier = ''pool'', user_id = None\<rparr>
   \<and> with_tenant_context decode
        (\<lambda>ev ctx. Inr \<lparr>statusCode = 200, body = [(''tenant_id'', fmt (tenant_id ctx))]\<rparr>)
        \<lparr>claims = Some Map.empty, headers = Map.empty\<rparr>
     = \<lparr>statusCode = 200, body = [(''tenant_id'', ''None'')]\<rparr>"
  by (simp add: extract_tenant_context_def with_tenant_context_def get_default_def fmt_def)



subsection \<open>Connection parameters\<close>

lemma hyphen_map_inj:
  "CHR ''_'' \<notin> set a \<Longrightarrow> CHR ''_'' \<notin> set b \<Longrightarrow>
   map (\<lambda>c. if c = CHR ''-'' then CHR ''_'' else c) a
     = map (\<lambda>c. if c = CHR ''-'' then CHR ''_'' else c) b \<Longrightarrow> a = b"
proof (induction a arbitrary: b)
  case Nil
  then show ?case by simp
next
  case (Cons x xs)
  then obtain y ys where b: "b = y # ys" by (cases b) auto
  with Cons.prems have "x = y" by (auto split: if_splits)
  moreover from Cons.prems b have "xs = ys" by (intro Cons.IH) auto
  ultimately show ?case using b by simp
qed

text \<open>
  C8, as the code has it. For the tiers pool, bridge and silo the connection parameters are
  a function of the tier, the tenant id and the two environment entries \<open>POOL_DATABASE\<close>
  and \<open>BRIDGE_DATABASE\<close> alone, and the computation succeeds. Under pool and under silo
  distinct tenant ids give distinct parameters. Under bridge two tenant ids give the same
  parameters exactly when they are equal after \<open>-\<close> has become \<open>_\<close>; tenant ids without
  \<open>_\<close> (UUIDs, for one) that differ give distinct parameters.
\<close>

theorem connection_params_distinct:
  "(tier \<in> {''pool'', ''bridge'', ''silo''}
      \<and> environ ''POOL_DATABASE'' = environ' ''POOL_DATABASE''
      \<and> environ ''BRIDGE_DATABASE'' = environ' ''BRIDGE_DATABASE'' \<longrightarrow>
      get_database_connection_params environ
          \<lparr>tenant_id = Some a, tenant_tier = tier, user_id = u\<rparr>
        = get_database_connection_params environ'
          \<lparr>tenant_id = Some a, tenant_tier = tier, user_id = u'\<rparr>
      \<and> (\<exists>d. get_database_connection_params environ
                \<lparr>tenant_id = Some a, tenant_tier = tier, user_id = u\<rparr> = Inr d))
   \<and> (tier \<in> {''pool'', ''silo''} \<and> a \<noteq> b \<longrightarrow>
      get_database_connection_params environ
          \<lparr>tenant_id = Some a, tenant_tier = tier, user_id = u\<rparr>
        \<noteq> get_database_connection_params environ
          \<lparr>tenant_id = Some b, tenant_tier = tier, user_id = u'\<rparr>)
   \<and> (get_database_connection_params environ
          \<lparr>tenant_id = Some a, tenant_tier = ''bridge'', user_id = u\<rparr>
        = get_database_connection_params environ
          \<lparr>tenant_id = Some b, tenant_tier = ''bridge'', user_id = u'\<rparr>
      \<longleftrightarrow> replace a ''-'' ''_'' = replace b ''-'' ''_'')
   \<and> (CHR ''_'' \<notin> set a \<and> CHR ''_'' \<notin> set b \<and> a \<noteq> b \<longrightarrow>
      get_database_connection_params environ
          \<lparr>tenant_id = Some a, tenant_tier = ''bridge'', user_id = u\<rparr>
        \<noteq> get_database_connection_params environ
          \<lparr>tenant_id = Some b, tenant_tier = ''bridge'', user_id = u'\<rparr>)"
proof (intro conjI impI)
  assume "tier \<in> {''pool'', ''bridge'', ''silo''}
      \<and> environ ''POOL_DATABASE'' = environ' ''POOL_DATABASE''
      \<and> environ ''BRIDGE_DATABASE'' = environ' ''BRIDGE_DATABASE''"
  then show "get_database_connection_params environ
          \<lparr>tenant_id = Some a, tenant_tier = tier, user_id = u\<rparr>
        = get_database_connection_params environ'
          \<lparr>tenant_id = Some a, tenant_tier = tier, user_id = u'\<rparr>"
    by (auto simp: get_database_connection_params_def)
next
  assume "tier \<in> {''pool'', ''bridge'', ''silo''}
      \<and> environ ''POOL_DATABASE'' = environ' ''POOL_DATABASE''
      \<and> environ ''BRIDGE_DATABASE'' = environ' ''BRIDGE_DATABASE''"
  then show "\<exists>d. get_database_connection_params environ
                \<lparr>tenant_id = Some a, tenant_tier = tier, user_id = u\<rparr> = Inr d"
    by (auto simp: get_database_connection_params_def)
next
  assume "tier \<in> {''pool'', ''silo''} \<and> a \<noteq> b"
  then show "get_database_connection_params environ
          \<lparr>tenant_id = Some a, tenant_tier = tier, user_id = u\<rparr>
        \<noteq> get_database_connection_params environ
          \<lparr>tenant_id = Some b, tenant_tier = tier, user_id = u'\<rparr>"
    by (auto simp: get_database_connection_params_def fmt_def)
next
  show "get_database_connection_params environ
          \<lparr>tenant_id = Some a, tenant_tier = ''bridge'', user_id = u\<rparr>
        = get_database_connection_params environ
          \<lparr>tenant_id = Some b, tenant_tier = ''bridge'', user_id = u'\<rparr>
      \<longleftrightarrow> replace a ''-'' ''_'' = replace b ''-'' ''_''"
    by (simp add: get_database_connection_params_def schema_name_def)
next
  assume h: "CHR ''_'' \<notin> set a \<and> CHR ''_'' \<notin> set b \<and> a \<noteq> b"
  then have "map (\<lambda>c. if c = CHR ''-'' then CHR ''_'' else c) a
     \<noteq> map (\<lambda>c. if c = CHR ''-'' then CHR ''_'' else c) b"
    using hyphen_map_inj [of a b] by blast
  then show "get_database_connection_params environ
          \<lparr>tenant_id = Some a, tenant_tier = ''bridge'', user_id = u\<rparr>
        \<noteq> get_database_connection_params environ
          \<lparr>tenant_id = Some b, tenant_tier = ''bridge'', user_id = u'\<rparr>"
    by (simp add: get_database_connection_params_def schema_name_map)
qed

theorem connection_params_distinct_witness:
  "get_database_connection_params Map.empty
     \<lparr>tenant_id = Some ''t1'', tenant_tier = ''pool'', user_id = None\<rparr>
   \<noteq> get_database_connection_params Map.empty
     \<lparr>tenant_id = Some ''t2'', tenant_tier = ''pool'', user_id = None\<rparr>
   \<and> get_database_connection_params Map.empty
     \<lparr>tenant_id = Some ''a-b'', tenant_tier = ''bridge'', user_id = None\<rparr>
   \<noteq> get_database_connection_params Map.empty
     \<lparr>tenant_id = Some ''a-c'', tenant_tier = ''bridge'', user_id = None\<rparr>
   \<and> get_database_connection_params Map.empty
     \<lparr>tenant_id = Some ''t1'', tenant_tier = ''pool'', user_id = None\<rparr>
   = Inr \<lparr>database = None, schema = ''public'', row_security_context = Some ''t1''\<rparr>"
  using connection_params_distinct
      [where tier = "''pool''" and environ = Map.empty and environ' = Map.empty
         and a = "''t1''" and b = "''t2''" and u = None and u' = None]
    connection_params_distinct
      [where tier = "''bridge''" and environ = Map.empty and environ' = Map.empty
         and a = "''a-b''" and b = "''a-c''" and u = None and u' = None]
  by (simp add: get_database_connection_params_def schema_name_map replace_def
        replace_scan_char)

text \<open>
  Under bridge the tenant ids \<open>a-b\<close> and \<open>a_b\<close> are distinct and give the same schema
  \<open>tenant_a_b\<close>, hence the same parameters.
\<close>

theorem bridge_params_collide:
  "get_database_connection_params Map.empty
     \<lparr>tenant_id = Some ''a-b'', tenant_tier = ''bridge'', user_id = None\<rparr>
   = get_database_connection_params Map.empty
     \<lparr>tenant_id = Some ''a_b'', tenant_tier = ''bridge'', user_id = None\<rparr>
   \<and> ''a-b'' \<noteq> ''a_b''"
  by (simp add: get_database_connection_params_def schema_name_map)

subsection \<open>Limit check\<close>

lemma tier_limits_ge: "(kind, limit) \<in> set (get_tier_limits tier) \<Longrightarrow> -1 \<le> limit"
  by (auto simp: get_tier_limits_def limits_table_def basic_limits_def premium_limits_def
        enterprise_limits_def split: if_splits)

text \<open>
  C4, for limits of at least -1. For every limit of at least -1 and every usage count, the check allows the
  creation iff the limit is -1 or the count is below the limit, and equivalently refuses iff
  \<open>0 \<le> limit \<le> current_count\<close>; every limit of the tier tables is at least -1. (Below -1
  the two formulations part: the first refuses, the second allows.)
\<close>

theorem allow_create_iff:
  "(-1 \<le> limit \<longrightarrow>
      (allow_create limit current_count \<longleftrightarrow> limit = -1 \<or> current_count < limit) \<and>
      (\<not> allow_create limit current_count \<longleftrightarrow> 0 \<le> limit \<and> limit \<le> current_count))
   \<and> ((kind, limit) \<in> set (get_tier_limits tier) \<longrightarrow> -1 \<le> limit)"
  using tier_limits_ge [of kind limit tier] by (auto simp: allow_create_def)

theorem allow_create_iff_witness:
  "-1 \<le> (5::int) \<and> \<not> allow_create 5 5 \<and> allow_create 5 4 \<and> allow_create (-1) 1000000
   \<and> (''max_products'', 100) \<in> set (get_tier_limits ''basic'')"
  using allow_create_iff [of 5 5] allow_create_iff [of 5 4] allow_create_iff [of "-1" 1000000]
    allow_create_iff [of 100 0 "''max_products''" "''basic''"]
  by (simp add: get_tier_limits_def limits_table_def basic_limits_def)

text \<open>At limit -2 and count 0 the check refuses, and \<open>0 \<le> limit \<le> count\<close> is false.\<close>

theorem allow_create_below_minus_one:
  "allow_create (-2) 0 = False \<and> \<not> (0 \<le> (-2::int) \<and> (-2::int) \<le> 0)"
  by (simp add: allow_create_def)

subsection \<open>Bridge schema name\<close>

text \<open>
  C5. For every tenant id, the bridge-tier schema name is the prefix \<open>tenant_\<close> followed by
  the tenant id in which every \<open>-\<close> has become \<open>_\<close> and every other character is kept,
  position by position; the onboarding function writes the same name.
\<close>

theorem bridge_schema_name:
  "get_database_connection_params environ
     \<lparr>tenant_id = Some tid, tenant_tier = ''bridge'', user_id = u\<rparr>
   = Inr \<lparr>database = environ ''BRIDGE_DATABASE'',
          schema = ''tenant_'' @ map (\<lambda>c. if c = CHR ''-'' then CHR ''_'' else c) tid,
          row_security_context = None\<rparr>
   \<and> schema_name tid = ''tenant_'' @ map (\<lambda>c. if c = CHR ''-'' then CHR ''_'' else c) tid"
  by (simp add: get_database_connection_params_def schema_name_map)

theorem bridge_schema_name_witness:
  "get_database_connection_params Map.empty
     \<lparr>tenant_id = Some ''t-42'', tenant_tier = ''bridge'', user_id = None\<rparr>
   = Inr \<lparr>database = None, schema = ''tenant_t_42'', row_security_context = None\<rparr>"
  using bridge_schema_name [of Map.empty "''t-42''" None] by simp

subsection \<open>Unknown subscription tiers\<close>

text \<open>A tier update whose body carries no status is answered 500, whatever the tier.\<close>

lemma update_tenant_without_status:
  "tenant_id tenant_context = path_tenant_id \<Longrightarrow>
   update_tenant now tenant_context path_tenant_id new_tier None t
     = (failure ''Failed to update tenant'' ''Parameter validation failed'', t)"
  by (simp add: update_tenant_def)

lemma unknown_tier_lookups:
  "tier \<notin> {''basic'', ''premium'', ''enterprise''} \<Longrightarrow>
   get_tier_limits tier = basic_limits \<and> get_tier_features tier = basic_features"
  by (simp add: get_tier_limits_def get_tier_features_def limits_table_def features_table_def)

lemma basic_tier_lookups:
  "get_tier_limits ''basic'' = basic_limits \<and> get_tier_features ''basic'' = basic_features"
  by (simp add: get_tier_limits_def get_tier_features_def limits_table_def features_table_def)

text \<open>
  C10, as the code has it. For every tier string that is not basic, premium or enterprise (the
  isolation-tier names and the empty string among them), the limits lookup and the features
  lookup give the basic tier's limits and features; neither has a failing branch.
  \<open>register_tenant\<close> of the tenant handler does not reject such a tier: with the required
  fields present and no failure of provisioning or logging it answers 201 and stores the
  tier with the basic limits and features. \<open>update_tenant\<close> with a status beside the tier
  answers 200 and stores the tier with the basic limits and features. The onboarding function
  accepts the tiers pool, bridge and silo only and answers every other tier with 500,
  \<open>Invalid tier\<close>.
\<close>

theorem unknown_tier_is_basic:
  "(tier \<notin> {''basic'', ''premium'', ''enterprise''} \<longrightarrow>
      get_tier_limits tier = get_tier_limits ''basic'' \<and>
      get_tier_features tier = get_tier_features ''basic'' \<and>
      get_tier_limits tier = basic_limits \<and> get_tier_features tier = basic_features)
   \<and> (tier \<notin> {''basic'', ''premium'', ''enterprise''} \<and> req ''tier'' = Some tier
        \<and> truthy (req ''company_name'') \<and> truthy (req ''admin_email'')
        \<and> (get_default req ''isolation_model'' ''pool'' = ''silo'' \<longrightarrow> provision = None)
        \<and> logged = None \<longrightarrow>
      statusCode (fst (register_tenant provision logged new_id created updated req t)) = 201
      \<and> (\<exists>r. map_of (snd (register_tenant provision logged new_id created updated req t)) new_id
                 = Some r
              \<and> map_of r ''tier'' = Some (S tier)
              \<and> map_of r ''limits'' = Some (Limits basic_limits)
              \<and> map_of r ''features'' = Some (Features basic_features)))
   \<and> (tier \<notin> {''basic'', ''premium'', ''enterprise''}
        \<and> tenant_id tenant_context = Some tid \<longrightarrow>
      statusCode (fst (update_tenant now tenant_context (Some tid) (Some tier) (Some st) t)) = 200
      \<and> (\<exists>r. map_of (snd (update_tenant now tenant_context (Some tid) (Some tier) (Some st) t))
                 tid = Some r
              \<and> map_of r ''tier'' = Some (S tier)
              \<and> map_of r ''limits'' = Some (Limits basic_limits)
              \<and> map_of r ''features'' = Some (Features basic_features)))
   \<and> (tier \<notin> {''pool'', ''bridge'', ''silo''} \<and> req ''tier'' = Some tier
        \<and> req ''company_name'' \<noteq> None \<and> req ''admin_email'' \<noteq> None \<longrightarrow>
      fst (lambda_handler provision admin new_id created updated req settings t)
        = failure ''Failed to onboard tenant'' (''Invalid tier: '' @ tier))"
proof (intro conjI impI)
  assume "tier \<notin> {''basic'', ''premium'', ''enterprise''}"
  then show "get_tier_limits tier = get_tier_limits ''basic''"
    "get_tier_features tier = get_tier_features ''basic''"
    "get_tier_limits tier = basic_limits" "get_tier_features tier = basic_features"
    using unknown_tier_lookups [of tier] basic_tier_lookups by simp_all
next
  assume h: "tier \<notin> {''basic'', ''premium'', ''enterprise''} \<and> req ''tier'' = Some tier
        \<and> truthy (req ''company_name'') \<and> truthy (req ''admin_email'')
        \<and> (get_default req ''isolation_model'' ''pool'' = ''silo'' \<longrightarrow> provision = None)
        \<and> logged = None"
  then have l: "get_tier_limits tier = basic_limits" "get_tier_features tier = basic_features"
    using unknown_tier_lookups [of tier] by simp_all
  from h have g: "get_default req ''tier'' ''basic'' = tier" by (simp add: get_default_def)
  from h g l show "statusCode (fst (register_tenant provision logged new_id created updated req t)) = 201"
    by (auto simp: register_tenant_def Let_def)
  from h g l show "\<exists>r. map_of (snd (register_tenant provision logged new_id created updated req t)) new_id
                 = Some r
              \<and> map_of r ''tier'' = Some (S tier)
              \<and> map_of r ''limits'' = Some (Limits basic_limits)
              \<and> map_of r ''features'' = Some (Features basic_features)"
    by (auto simp: register_tenant_def Let_def update_conv')
next
  assume h: "tier \<notin> {''basic'', ''premium'', ''enterprise''}
        \<and> tenant_id tenant_context = Some tid"
  then have l: "get_tier_limits tier = basic_limits" "get_tier_features tier = basic_features"
    using unknown_tier_lookups [of tier] by simp_all
  from h show "statusCode (fst (update_tenant now tenant_context (Some tid) (Some tier) (Some st) t)) = 200"
    by (simp add: update_tenant_def Let_def)
  from h l show "\<exists>r. map_of (snd (update_tenant now tenant_context (Some tid) (Some tier) (Some st) t))
                 tid = Some r
              \<and> map_of r ''tier'' = Some (S tier)
              \<and> map_of r ''limits'' = Some (Limits basic_limits)
              \<and> map_of r ''features'' = Some (Features basic_features)"
    by (simp add: update_tenant_def Let_def update_conv')
next
  assume h: "tier \<notin> {''pool'', ''bridge'', ''silo''} \<and> req ''tier'' = Some tier
        \<and> req ''company_name'' \<noteq> None \<and> req ''admin_email'' \<noteq> None"
  then show "fst (lambda_handler provision admin new_id created updated req settings t)
        = failure ''Failed to onboard tenant'' (''Invalid tier: '' @ tier)"
    by (auto simp: lambda_handler_def Let_def fmt_def)
qed

text \<open>
  The tier \<open>pool\<close> at the lookups, at \<open>register_tenant\<close> and at \<open>update_tenant\<close>, and the
  empty tier at the onboarding function.
\<close>

theorem unknown_tier_is_basic_witness:
  "''pool'' \<notin> {''basic'', ''premium'', ''enterprise''}
   \<and> get_tier_limits ''pool'' = basic_limits \<and> get_tier_features ''pool'' = basic_features
   \<and> statusCode (fst (register_tenant None None ''id1'' ''t1'' ''t2''
        (map_of [(''company_name'', ''Acme''), (''admin_email'', ''admin@acme.com''),
                 (''tier'', ''pool'')]) [])) = 201
   \<and> statusCode (fst (update_tenant ''t3''
        \<lparr>tenant_id = Some ''id1'', tenant_tier = ''pool'', user_id = None\<rparr>
        (Some ''id1'') (Some ''pool'') (Some ''active'') [])) = 200
   \<and> fst (lambda_handler None Exists ''id1'' ''t1'' ''t2''
        (map_of [(''company_name'', ''Acme''), (''admin_email'', ''admin@acme.com''),
                 (''tier'', [])]) None [])
     = failure ''Failed to onboard tenant'' ''Invalid tier: ''"
proof -
  let ?req = "map_of [(''company_name'', ''Acme''), (''admin_email'', ''admin@acme.com''),
                 (''tier'', ''pool'')]"
  let ?req' = "map_of [(''company_name'', ''Acme''), (''admin_email'', ''admin@acme.com''),
                 (''tier'', [])]"
  let ?ctx = "\<lparr>tenant_id = Some ''id1'', tenant_tier = ''pool'', user_id = None\<rparr>"
  have h: "''pool'' \<notin> {''basic'', ''premium'', ''enterprise''}" by simp
  have hb: "''pool'' \<notin> {''basic'', ''premium'', ''enterprise''} \<and> ?req ''tier'' = Some ''pool''
        \<and> truthy (?req ''company_name'') \<and> truthy (?req ''admin_email'')
        \<and> (get_default ?req ''isolation_model'' ''pool'' = ''silo''
             \<longrightarrow> None = (None :: string option))
        \<and> None = (None :: string option)"
    by (simp add: truthy_def)
  have hc: "''pool'' \<notin> {''basic'', ''premium'', ''enterprise''}
        \<and> tenant_id ?ctx = Some ''id1''" by simp
  have hd: "[] \<notin> {''pool'', ''bridge'', ''silo''} \<and> ?req' ''tier'' = Some []
        \<and> ?req' ''company_name'' \<noteq> None \<and> ?req' ''admin_email'' \<noteq> None" by simp
  note T = unknown_tier_is_basic
  from T [THEN conjunct1, THEN mp, OF h]
  have a: "get_tier_limits ''pool'' = basic_limits \<and> get_tier_features ''pool'' = basic_features"
    by blast
  from T [THEN conjunct2, THEN conjunct1, THEN mp, OF hb]
  have b: "statusCode (fst (register_tenant None None ''id1'' ''t1'' ''t2'' ?req [])) = 201"
    by (rule conjunct1)
  from T [THEN conjunct2, THEN conjunct2, THEN conjunct1, THEN mp, OF hc]
  have c: "statusCode (fst (update_tenant ''t3'' ?ctx (Some ''id1'') (Some ''pool'')
             (Some ''active'') [])) = 200"
    by (rule conjunct1)
  have d: "fst (lambda_handler None Exists ''id1'' ''t1'' ''t2'' ?req' None [])
     = failure ''Failed to onboard tenant'' (''Invalid tier: '' @ [])"
    by (rule T [THEN conjunct2, THEN conjunct2, THEN conjunct2, THEN mp, OF hd])
  from d have d': "fst (lambda_handler None Exists ''id1'' ''t1'' ''t2'' ?req' None [])
     = failure ''Failed to onboard tenant'' ''Invalid tier: ''"
    by (simp only: append_Nil2)
  from h a b c d' show ?thesis by (intro conjI) (elim conjE, assumption)+
qed

text \<open>
  The tier \<open>gold\<close> at the onboarding function: the metadata is saved, then the request is
  answered 500.
\<close>

theorem onboarding_rejects_unknown_tier:
  "''gold'' \<notin> {''basic'', ''premium'', ''enterprise''}
   \<and> lambda_handler None (Created ''admin@acme.com'') ''id1'' ''t1'' ''t2''
       (map_of [(''company_name'', ''Acme''), (''admin_email'', ''admin@acme.com''),
                (''tier'', ''gold'')]) None []
     = (\<lparr>statusCode = 500,
         body = [(''error'', ''Failed to onboard tenant''), (''details'', ''Invalid tier: gold'')]\<rparr>,
        [(''id1'', [(''tenant_id'', S ''id1''), (''company_name'', S ''Acme''),
                    (''admin_email'', S ''admin@acme.com''), (''tier'', S ''gold''),
                    (''status'', S ''provisioning''), (''created_at'', S ''t1''),
                    (''settings'', Settings [])])])"
  by code_simp

end
